theory Spec2Isabelle
  imports Complex_Main "HOL-Library.Word"
begin

unbundle bit_operations_syntax

section \<open>Python values, exceptions and the node\<close>

text \<open>
  The values that travel between the session layer and the node: what a JSON-RPC reply
  decodes to, and the positional arguments of a call. A Python \<open>dict\<close> keeps its
  entries in insertion order, so it is an association list; \<open>PTuple\<close> is the tuple
  in which a starred parameter collects its arguments.
\<close>

datatype pyval =
    PNone
  | PBool bool
  | PInt int
  | PFloat real
  | PStr string
  | PTuple "pyval list"
  | PList "pyval list"
  | PDict "(string \<times> pyval) list"

text \<open>
  Every \<open>raise\<close> of the source, and every exception of the interpreter that the
  modelled paths can meet, is a value. \<open>JSONRPCException\<close> is what the transport
  raises (error code and message of the node); \<open>RPCError\<close> is the classified failure
  the call executor hands to its caller.
\<close>

datatype error =
    NotImplementedError string
  | RuntimeError string
  | TypeError string
  | KeyError string
  | AttributeError string
  | JSONRPCException int string
  | RPCError int string

text \<open>
  One remote call is the connection it goes through, the name of the RPC operation and
  the positional arguments. The node is outside the program: it is a parameter that
  answers a call, given the calls made before it, with a decoded result or with an error
  code and message. The log of the calls made so far is the only state the node
  dialogue has.
\<close>

type_synonym rpc_call = "nat \<times> string \<times> pyval list"

type_synonym node = "rpc_call list \<Rightarrow> rpc_call \<Rightarrow> (int \<times> string) + pyval"

text \<open>
  \<open>proxy.name\<close> on an \<open>AuthServiceProxy\<close> is a callable bound to the operation
  \<open>name\<close> on that connection; calling it performs the remote call.
\<close>

datatype callable = RPCMethod nat string

definition quoted :: "string \<Rightarrow> string" where
  "quoted s = CHR 0x27 # s @ [CHR 0x27]"

definition call :: "node \<Rightarrow> callable \<Rightarrow> pyval list \<Rightarrow> rpc_call list
    \<Rightarrow> (error + pyval) \<times> rpc_call list" where
  "call nd f args tr =
     (case f of RPCMethod c name \<Rightarrow>
        (case nd tr (c, name, args) of
           Inl (code, msg) \<Rightarrow> (Inl (JSONRPCException code msg), tr @ [(c, name, args)])
         | Inr v \<Rightarrow> (Inr v, tr @ [(c, name, args)])))"

text \<open>
  A connection reference is \<open>Some c\<close>, or \<open>None\<close> for Python's \<open>None\<close>, on
  which every attribute access raises \<open>AttributeError\<close>.
\<close>

definition proxy_getattr :: "nat option \<Rightarrow> string \<Rightarrow> error + callable" where
  "proxy_getattr p name =
     (case p of
        None \<Rightarrow> Inl (AttributeError (quoted ''NoneType'' @ '' object has no attribute '' @ quoted name))
      | Some c \<Rightarrow> Inr (RPCMethod c name))"


text \<open>
  \<open>f(*x)\<close>: the starred value is iterated. A tuple or a list gives its elements, a
  string its characters, a dict its keys; anything else is a \<open>TypeError\<close>.
\<close>

fun unpack :: "pyval \<Rightarrow> error + pyval list" where
  "unpack (PTuple xs) = Inr xs"
| "unpack (PList xs) = Inr xs"
| "unpack (PStr s) = Inr (map (\<lambda>c. PStr [c]) s)"
| "unpack (PDict kvs) = Inr (map (\<lambda>kv. PStr (fst kv)) kvs)"
| "unpack PNone = Inl (TypeError ''Value after * must be an iterable, not NoneType'')"
| "unpack (PBool b) = Inl (TypeError ''Value after * must be an iterable, not bool'')"
| "unpack (PInt i) = Inl (TypeError ''Value after * must be an iterable, not int'')"
| "unpack (PFloat r) = Inl (TypeError ''Value after * must be an iterable, not float'')"

section \<open>The RPC call executor\<close>

text \<open>
  Modelled from the spec: the decorator \<open>rpc_exec\<close> of \<open>pyliquid.liquid.wrappers\<close>,
  which is not among the sources. The spec's RPC Call Executor forwards the arguments,
  returns the node's decoded result unchanged, surfaces a rejection of the node or the
  transport as one classified failure carrying the node's error code and message, never
  retries and never swallows an error; its design notes say that the wrapper executor
  unnests an argument tuple. So the decorated function is called once, with the callable
  and with the positional arguments of the call collected in one tuple; its result is
  passed through, and a \<open>JSONRPCException\<close> becomes the classified failure.
\<close>

definition classify :: "error + pyval \<Rightarrow> error + pyval" where
  "classify r =
     (case r of
        Inl (JSONRPCException code msg) \<Rightarrow> Inl (RPCError code msg)
      | Inl e \<Rightarrow> Inl e
      | Inr v \<Rightarrow> Inr v)"

definition rpc_exec ::
  "(callable \<Rightarrow> pyval list \<Rightarrow> rpc_call list \<Rightarrow> (error + pyval) \<times> rpc_call list)
    \<Rightarrow> callable \<Rightarrow> pyval list \<Rightarrow> rpc_call list \<Rightarrow> (error + pyval) \<times> rpc_call list" where
  "rpc_exec func inst_func args tr =
     (case func inst_func [PTuple args] tr of (r, tr') \<Rightarrow> (classify r, tr'))"

text \<open>
  The body of \<open>Wallet._wrapper_executor(cls, _inst_func, *args)\<close>: with arguments, the
  first one is unpacked into the call; without, the callable is called bare. It is a
  class method: it has no access to any instance.
\<close>

definition wrapper_executor_body :: "node \<Rightarrow> callable \<Rightarrow> pyval list \<Rightarrow> rpc_call list
    \<Rightarrow> (error + pyval) \<times> rpc_call list" where
  "wrapper_executor_body nd inst_func args tr =
     (case args of
        a # _ \<Rightarrow> (case unpack a of
                    Inl e \<Rightarrow> (Inl e, tr)
                  | Inr xs \<Rightarrow> call nd inst_func xs tr)
      | [] \<Rightarrow> call nd inst_func [] tr)"

definition wrapper_executor :: "node \<Rightarrow> callable \<Rightarrow> pyval list \<Rightarrow> rpc_call list
    \<Rightarrow> (error + pyval) \<times> rpc_call list" where
  "wrapper_executor nd = rpc_exec (wrapper_executor_body nd)"

section \<open>Wallet\<close>

text \<open>
  The two attributes of a \<open>Wallet\<close>. \<open>_wallet\<close> is \<open>None\<close> while the constructor
  has not assigned it yet and \<open>Some\<close> of the metadata afterwards.
\<close>

record Wallet =
  self_proxy :: "nat option"
  self_wallet :: "pyval option"

definition proxy :: "Wallet \<Rightarrow> nat option" where
  "proxy self = self_proxy self"

definition wallet :: "Wallet \<Rightarrow> error + pyval" where
  "wallet self =
     (case self_wallet self of
        None \<Rightarrow> Inl (AttributeError (quoted ''Wallet'' @ '' object has no attribute '' @ quoted ''_wallet''))
      | Some m \<Rightarrow> Inr m)"

text \<open>
  Every operation of the class has the shape
  \<open>self._wrapper_executor(self.proxy.<name>, <args>)\<close>: the attribute is read from the
  connection, then the executor runs. An operation returns its result, the instance as
  it leaves it, and the call log.
\<close>

definition exec_on_proxy :: "node \<Rightarrow> string \<Rightarrow> pyval list \<Rightarrow> Wallet \<Rightarrow> rpc_call list
    \<Rightarrow> (error + pyval) \<times> Wallet \<times> rpc_call list" where
  "exec_on_proxy nd name args self tr =
     (case proxy_getattr (proxy self) name of
        Inl e \<Rightarrow> (Inl e, self, tr)
      | Inr f \<Rightarrow> (case wrapper_executor nd f args tr of (r, tr') \<Rightarrow> (r, self, tr')))"

definition list_wallets :: "node \<Rightarrow> Wallet \<Rightarrow> rpc_call list
    \<Rightarrow> (error + pyval) \<times> Wallet \<times> rpc_call list" where
  "list_wallets nd self tr = exec_on_proxy nd ''listwalletdir'' [] self tr"

definition load_wallet :: "node \<Rightarrow> pyval \<Rightarrow> Wallet \<Rightarrow> rpc_call list
    \<Rightarrow> (error + pyval) \<times> Wallet \<times> rpc_call list" where
  "load_wallet nd name self tr = exec_on_proxy nd ''loadwallet'' [name] self tr"

definition get_balance :: "node \<Rightarrow> Wallet \<Rightarrow> rpc_call list
    \<Rightarrow> (error + pyval) \<times> Wallet \<times> rpc_call list" where
  "get_balance nd self tr = exec_on_proxy nd ''getbalance'' [] self tr"

definition get_address :: "node \<Rightarrow> Wallet \<Rightarrow> rpc_call list
    \<Rightarrow> (error + pyval) \<times> Wallet \<times> rpc_call list" where
  "get_address nd self tr = exec_on_proxy nd ''getaddress'' [] self tr"

definition get_private_key :: "node \<Rightarrow> Wallet \<Rightarrow> rpc_call list
    \<Rightarrow> (error + pyval) \<times> Wallet \<times> rpc_call list" where
  "get_private_key nd self tr = exec_on_proxy nd ''dumpprivkey'' [] self tr"

definition get_public_key :: "node \<Rightarrow> Wallet \<Rightarrow> rpc_call list
    \<Rightarrow> (error + pyval) \<times> Wallet \<times> rpc_call list" where
  "get_public_key nd self tr = exec_on_proxy nd ''getpubkey'' [] self tr"

definition get_wallet_info :: "node \<Rightarrow> Wallet \<Rightarrow> rpc_call list
    \<Rightarrow> (error + pyval) \<times> Wallet \<times> rpc_call list" where
  "get_wallet_info nd self tr = exec_on_proxy nd ''getwalletinfo'' [] self tr"

definition send_to_address :: "node \<Rightarrow> pyval \<Rightarrow> pyval \<Rightarrow> Wallet \<Rightarrow> rpc_call list
    \<Rightarrow> (error + pyval) \<times> Wallet \<times> rpc_call list" where
  "send_to_address nd address amount self tr =
     exec_on_proxy nd ''sendtoaddress'' [address, amount] self tr"

subsection \<open>Generated labels\<close>

text \<open>
  \<open>str(uuid4())\<close> of the Python library: sixteen random bytes, read as a 128-bit
  number, with the variant and version bits overwritten, printed as 32 lower-case
  hexadecimal digits in groups of 8, 4, 4, 4 and 12. The random bytes are an input.
\<close>

definition uuid4 :: "128 word \<Rightarrow> 128 word" where
  "uuid4 r =
     (((r AND NOT (push_bit 48 0xc000)) OR push_bit 48 0x8000)
        AND NOT (push_bit 64 0xf000)) OR push_bit 76 4"

definition hex_digit :: "nat \<Rightarrow> char" where
  "hex_digit d = ''0123456789abcdef'' ! d"

fun hex :: "nat \<Rightarrow> nat \<Rightarrow> string" where
  "hex 0 v = []"
| "hex (Suc n) v = hex n (v div 16) @ [hex_digit (v mod 16)]"

definition str_uuid :: "128 word \<Rightarrow> string" where
  "str_uuid u =
     (let h = hex 32 (unat u)
      in take 8 h @ ''-'' @ take 4 (drop 8 h) @ ''-'' @ take 4 (drop 12 h) @ ''-''
           @ take 4 (drop 16 h) @ ''-'' @ drop 20 h)"

definition is_hex_char :: "char \<Rightarrow> bool" where
  "is_hex_char c = (c \<in> set ''0123456789abcdef'')"

definition valid_uuid_string :: "string \<Rightarrow> bool" where
  "valid_uuid_string s =
     (length s = 36
      \<and> list_all is_hex_char (take 8 s) \<and> s ! 8 = CHR ''-''
      \<and> list_all is_hex_char (take 4 (drop 9 s)) \<and> s ! 13 = CHR ''-''
      \<and> list_all is_hex_char (take 4 (drop 14 s)) \<and> s ! 18 = CHR ''-''
      \<and> list_all is_hex_char (take 4 (drop 19 s)) \<and> s ! 23 = CHR ''-''
      \<and> list_all is_hex_char (drop 24 s))"

subsection \<open>Construction\<close>

definition opt_str :: "string option \<Rightarrow> pyval" where
  "opt_str l = (case l of None \<Rightarrow> PNone | Some s \<Rightarrow> PStr s)"

text \<open>\<open>Wallet._create_wallet(self, address, label=None)\<close>.\<close>

definition create_wallet :: "node \<Rightarrow> 128 word \<Rightarrow> bool \<Rightarrow> string option \<Rightarrow> Wallet
    \<Rightarrow> rpc_call list \<Rightarrow> (error + pyval) \<times> Wallet \<times> rpc_call list" where
  "create_wallet nd rnd address label self tr =
     (let label' = (case label of
                      None \<Rightarrow> str_uuid (uuid4 rnd)
                    | Some l \<Rightarrow> if l = [] then str_uuid (uuid4 rnd) else l)
      in case exec_on_proxy nd ''createwallet'' [PStr label', PBool False, PBool False] self tr of
           (Inl e, self1, tr1) \<Rightarrow> (Inl e, self1, tr1)
         | (Inr creation, self1, tr1) \<Rightarrow>
             if address then exec_on_proxy nd ''getnewaddress'' [] self1 tr1
             else (Inr creation, self1, tr1))"

text \<open>
  \<open>Wallet.__init__(self, proxy_service, mode, wallet_label, with_address)\<close>, with
  every parameter bound.
\<close>

definition Wallet_init :: "node \<Rightarrow> 128 word \<Rightarrow> nat option \<Rightarrow> string option \<Rightarrow> string option
    \<Rightarrow> bool \<Rightarrow> rpc_call list \<Rightarrow> (error + Wallet) \<times> rpc_call list" where
  "Wallet_init nd rnd proxy_service mode wallet_label with_address tr =
     (let self = \<lparr>self_proxy = proxy_service, self_wallet = None\<rparr>
      in if mode = Some ''c'' then
           (case create_wallet nd rnd with_address wallet_label self tr of
              (Inl e, self1, tr1) \<Rightarrow> (Inl e, tr1)
            | (Inr v, self1, tr1) \<Rightarrow> (Inr (self1\<lparr>self_wallet := Some v\<rparr>), tr1))
         else if mode = Some ''r'' then
           (Inr (self\<lparr>self_wallet := Some (PDict [])\<rparr>), tr)
         else if mode = Some ''l'' then
           (case load_wallet nd (opt_str wallet_label) self tr of
              (Inl e, self1, tr1) \<Rightarrow> (Inl e, tr1)
            | (Inr v, self1, tr1) \<Rightarrow> (Inr (self1\<lparr>self_wallet := Some v\<rparr>), tr1))
         else (Inl (NotImplementedError ''Provide a valid Wallet mode!''), tr))"

text \<open>
  The call \<open>Wallet(...)\<close>: an argument is \<open>None\<close> when the call leaves it out.
  \<open>proxy_service\<close> has no default, so a call without it raises \<open>TypeError\<close> before
  the constructor's body runs; the others default to \<open>'r'\<close>, \<open>None\<close> and \<open>True\<close>.
\<close>

definition Wallet_new :: "node \<Rightarrow> 128 word \<Rightarrow> nat option option \<Rightarrow> string option option
    \<Rightarrow> string option option \<Rightarrow> bool option \<Rightarrow> rpc_call list
    \<Rightarrow> (error + Wallet) \<times> rpc_call list" where
  "Wallet_new nd rnd proxy_arg mode_arg label_arg address_arg tr =
     (case proxy_arg of
        None \<Rightarrow>
          (Inl (TypeError (''__init__() missing 1 required positional argument: ''
                            @ quoted ''proxy_service'')), tr)
      | Some p \<Rightarrow>
          Wallet_init nd rnd p
            (case mode_arg of None \<Rightarrow> Some ''r'' | Some m \<Rightarrow> m)
            (case label_arg of None \<Rightarrow> None | Some l \<Rightarrow> l)
            (case address_arg of None \<Rightarrow> True | Some a \<Rightarrow> a) tr)"

section \<open>Pool\<close>

record Pool =
  self_vault_wallet :: Wallet

definition Pool_init :: "Wallet \<Rightarrow> Pool" where
  "Pool_init input_wallet = \<lparr>self_vault_wallet = input_wallet\<rparr>"

definition vaul_wallet :: "Pool \<Rightarrow> Wallet" where
  "vaul_wallet self = self_vault_wallet self"

definition issue_token :: "node \<Rightarrow> pyval \<Rightarrow> pyval \<Rightarrow> Pool \<Rightarrow> rpc_call list
    \<Rightarrow> (error + pyval) \<times> Pool \<times> rpc_call list" where
  "issue_token nd amount reissue self tr =
     (case proxy_getattr (proxy (self_vault_wallet self)) ''issueasset'' of
        Inl e \<Rightarrow> (Inl e, self, tr)
      | Inr f \<Rightarrow> (case wrapper_executor nd f [amount, reissue] tr of (r, tr') \<Rightarrow> (r, self, tr')))"

text \<open>
  The class defines two operations besides its constructor. A client of a \<open>Pool\<close> runs
  any sequence of them.
\<close>

datatype pool_op = Issue_token pyval pyval | Vaul_wallet

fun pool_step :: "node \<Rightarrow> pool_op \<Rightarrow> Pool \<times> rpc_call list \<Rightarrow> Pool \<times> rpc_call list" where
  "pool_step nd (Issue_token amount reissue) (self, tr) =
     (case issue_token nd amount reissue self tr of (r, self1, tr1) \<Rightarrow> (self1, tr1))"
| "pool_step nd Vaul_wallet (self, tr) = (self, tr)"

fun pool_run :: "node \<Rightarrow> pool_op list \<Rightarrow> Pool \<times> rpc_call list \<Rightarrow> Pool \<times> rpc_call list" where
  "pool_run nd [] st = st"
| "pool_run nd (x # xs) st = pool_run nd xs (pool_step nd x st)"

section \<open>The session registry and the request operations\<close>

text \<open>
  Modelled from the spec: the class \<open>Service\<close> of the module \<open>server\<close>, which is not
  among the sources. A Service represents one node instance and owns exactly one
  Connection, opened when the Service is constructed. The model keeps of a Service what
  the registry uses: its identity and its Connection. Each construction yields a new
  Service with a new Connection.
\<close>

record Service =
  service_id :: nat
  service_proxy :: nat

text \<open>
  The process-wide state: the registry of Services with their Connections (a dict, in
  insertion order), the Wallets of the session (most recently created last), the log
  of the calls made to the node, and the next unused Service handle.
\<close>

record world =
  active_service :: "(Service \<times> nat) list"
  session_wallets :: "Wallet list"
  rpc_log :: "rpc_call list"
  fresh :: nat

definition Service_init :: "world \<Rightarrow> Service \<times> world" where
  "Service_init w =
     (\<lparr>service_id = fresh w, service_proxy = fresh w\<rparr>, w\<lparr>fresh := Suc (fresh w)\<rparr>)"

definition get_proxy :: "Service \<Rightarrow> nat" where
  "get_proxy service = service_proxy service"

text \<open>
  Modelled from the spec: the registry accessors \<open>get_active_service\<close>,
  \<open>get_session_wallets\<close> and \<open>update_active_service\<close>, which \<open>internals.py\<close> imports
  and no source file defines. The Session Registry is a mapping from Service to its
  Connection and an ordered list of Wallets, initialised empty; entries are appended
  as they are registered and never removed. The getters return the current content;
  the update merges a dict into the mapping as \<open>dict.update\<close> does.
\<close>

definition get_active_service :: "world \<Rightarrow> (Service \<times> nat) list" where
  "get_active_service w = active_service w"

definition get_session_wallets :: "world \<Rightarrow> Wallet list" where
  "get_session_wallets w = session_wallets w"

fun dict_set :: "('k \<times> 'v) list \<Rightarrow> 'k \<Rightarrow> 'v \<Rightarrow> ('k \<times> 'v) list" where
  "dict_set [] k v = [(k, v)]"
| "dict_set ((k', v') # kvs) k v =
     (if k' = k then (k, v) # kvs else (k', v') # dict_set kvs k v)"

fun dict_update :: "('k \<times> 'v) list \<Rightarrow> ('k \<times> 'v) list \<Rightarrow> ('k \<times> 'v) list" where
  "dict_update d [] = d"
| "dict_update d ((k, v) # es) = dict_update (dict_set d k v) es"

definition update_active_service :: "(Service \<times> nat) list \<Rightarrow> world \<Rightarrow> world" where
  "update_active_service d w = w\<lparr>active_service := dict_update (active_service w) d\<rparr>"

definition initial_world :: world where
  "initial_world = \<lparr>active_service = [], session_wallets = [], rpc_log = [], fresh = 0\<rparr>"

text \<open>
  \<open>_check_for_proxy()\<close>. With a registered Service it returns the last value of the
  registry. Otherwise it constructs a Service, registers it and calls itself; the value
  of that call is dropped, and the function falls off its end, which returns \<open>None\<close>.
\<close>

function check_for_proxy :: "world \<Rightarrow> nat option \<times> world" where
  "check_for_proxy w =
     (let temp = get_active_service w
      in if temp \<noteq> [] then (Some (snd (last temp)), w)
         else (let service = fst (Service_init w);
                   w1 = snd (Service_init w);
                   prx = get_proxy service;
                   w2 = update_active_service [(service, prx)] w1
               in (None, snd (check_for_proxy w2))))"
  by pat_completeness auto
termination
proof (relation "measure (\<lambda>w. if active_service w = [] then 1 else 0)")
  show "wf (measure (\<lambda>w. if active_service w = [] then 1 else 0))"
    by simp
next
  fix w :: world and temp service w1 prx w2
  assume empty: "\<not> temp \<noteq> []" and temp: "temp = get_active_service w"
    and w2: "w2 = update_active_service [(service, prx)] w1"
  have "dict_set d k v \<noteq> []" for d :: "(Service \<times> nat) list" and k v
    by (cases d) (auto split: if_splits)
  then have "active_service w2 \<noteq> []"
    by (simp add: w2 update_active_service_def)
  moreover have "active_service w = []"
    using empty temp by (simp add: get_active_service_def)
  ultimately show "(w2, w) \<in> measure (\<lambda>w. if active_service w = [] then 1 else 0)"
    by simp
qed

declare check_for_proxy.simps [simp del]

text \<open>\<open>get_wallet()\<close>, the list-wallets request.\<close>

definition get_wallet :: "node \<Rightarrow> 128 word \<Rightarrow> world \<Rightarrow> (error + pyval) \<times> world" where
  "get_wallet nd rnd w =
     (let session_wallets = get_session_wallets w
      in case (if session_wallets \<noteq> [] then (Inr (last session_wallets), w)
               else (case check_for_proxy w of
                       (prx, w1) \<Rightarrow>
                         (case Wallet_new nd rnd (Some prx) None None (Some False) (rpc_log w1) of
                            (r, tr) \<Rightarrow> (r, w1\<lparr>rpc_log := tr\<rparr>)))) of
           (Inl e, w2) \<Rightarrow> (Inl e, w2)
         | (Inr wlt, w2) \<Rightarrow>
             (case list_wallets nd wlt (rpc_log w2) of
                (Inl e, wlt1, tr) \<Rightarrow> (Inl e, w2\<lparr>rpc_log := tr\<rparr>)
              | (Inr v, wlt1, tr) \<Rightarrow> (Inr PNone, w2\<lparr>rpc_log := tr\<rparr>)))"

text \<open>\<open>x[k]\<close> with a string key.\<close>

fun subscript :: "pyval \<Rightarrow> string \<Rightarrow> error + pyval" where
  "subscript (PDict kvs) k =
     (case map_of kvs k of None \<Rightarrow> Inl (KeyError (quoted k)) | Some v \<Rightarrow> Inr v)"
| "subscript (PStr s) k = Inl (TypeError ''string indices must be integers'')"
| "subscript (PTuple xs) k = Inl (TypeError ''tuple indices must be integers or slices, not str'')"
| "subscript (PList xs) k = Inl (TypeError ''list indices must be integers or slices, not str'')"
| "subscript PNone k = Inl (TypeError (quoted ''NoneType'' @ '' object is not subscriptable''))"
| "subscript (PBool b) k = Inl (TypeError (quoted ''bool'' @ '' object is not subscriptable''))"
| "subscript (PInt i) k = Inl (TypeError (quoted ''int'' @ '' object is not subscriptable''))"
| "subscript (PFloat r) k = Inl (TypeError (quoted ''float'' @ '' object is not subscriptable''))"

text \<open>
  The comprehension \<open>[w for w in session_wallets if w.wallet['label'] == requested_label]\<close>:
  the wallets are visited in order, and the first failing subscript ends it.
\<close>

fun labelled :: "string \<Rightarrow> Wallet list \<Rightarrow> error + Wallet list" where
  "labelled requested_label [] = Inr []"
| "labelled requested_label (w # ws) =
     (case wallet w of
        Inl e \<Rightarrow> Inl e
      | Inr m \<Rightarrow>
          (case subscript m ''label'' of
             Inl e \<Rightarrow> Inl e
           | Inr v \<Rightarrow>
               (case labelled requested_label ws of
                  Inl e \<Rightarrow> Inl e
                | Inr r \<Rightarrow> Inr (if v = PStr requested_label then w # r else r))))"

definition no_wallet_loaded :: error where
  "no_wallet_loaded =
     RuntimeError ''No wallet instance have been loaded. Please load            a wallet beforehand.''"

definition not_loaded :: error where
  "not_loaded = TypeError ''The requested address has not been loaded.''"

text \<open>\<open>get_labeled_wallet(requested_label)\<close>.\<close>

definition get_labeled_wallet :: "string \<Rightarrow> world \<Rightarrow> error + pyval" where
  "get_labeled_wallet requested_label w =
     (let session_wallets = get_session_wallets w
      in if session_wallets = [] then Inl no_wallet_loaded
         else (case labelled requested_label session_wallets of
                 Inl e \<Rightarrow> Inl e
               | Inr target_wallet \<Rightarrow>
                   if target_wallet \<noteq> [] then wallet (last target_wallet)
                   else Inl not_loaded))"

text \<open>\<open>post_create_wallet()\<close>, the create-wallet request: \<open>Wallet()\<close>, no argument.\<close>

definition post_create_wallet :: "node \<Rightarrow> 128 word \<Rightarrow> world \<Rightarrow> (error + Wallet) \<times> world" where
  "post_create_wallet nd rnd w =
     (case Wallet_new nd rnd None None None None (rpc_log w) of
        (out, tr) \<Rightarrow> (out, w\<lparr>rpc_log := tr\<rparr>))"

section \<open>A sample node and sample objects\<close>

text \<open>
  A node that answers the operations of the interface with fixed replies (the name of
  the wallet in the reply to \<open>createwallet\<close> and \<open>loadwallet\<close> is the one
  asked for) and rejects every other operation, a Wallet in reference mode on connection 0, and
  the Pool on it. They are the concrete inputs at which the theorems below are
  instantiated.
\<close>

definition sample_node :: node where
  "sample_node tr cl =
     (case cl of (c, name, args) \<Rightarrow>
        if name = ''listwalletdir'' then
          Inr (PDict [(''wallets'', PList [PDict [(''name'', PStr ''w1'')]])])
        else if name = ''createwallet'' \<or> name = ''loadwallet'' then
          Inr (PDict [(''name'', case args of [] \<Rightarrow> PNone | a # _ \<Rightarrow> a),
                      (''warning'', PStr [])])
        else if name = ''getnewaddress'' then Inr (PStr ''addr0'')
        else if name = ''getbalance'' then Inr (PDict [(''bitcoin'', PFloat 21)])
        else if name = ''sendtoaddress'' then Inr (PStr ''txid0'')
        else if name = ''issueasset'' then Inr (PDict [(''asset'', PStr ''asset0'')])
        else Inl (- 32601, ''Method not found''))"

definition sample_wallet :: Wallet where
  "sample_wallet = \<lparr>self_proxy = Some 0, self_wallet = Some (PDict [])\<rparr>"

definition sample_pool :: Pool where
  "sample_pool = \<lparr>self_vault_wallet = sample_wallet\<rparr>"


definition created_wallet :: Wallet where
  "created_wallet =
     \<lparr>self_proxy = Some 0,
      self_wallet = Some (PDict [(''name'', PStr ''a''), (''warning'', PStr [])])\<rparr>"

definition world_with_service :: world where
  "world_with_service =
     initial_world\<lparr>active_service := [(\<lparr>service_id = 0, service_proxy = 0\<rparr>, 0)], fresh := 1\<rparr>"

section \<open>What a caller of the executor is to see\<close>

text \<open>
  The answer of the node to one call, as the executor's contract hands it on: a decoded
  result as it is, a rejection as the classified failure with the node's code and
  message.
\<close>

definition node_reply :: "node \<Rightarrow> rpc_call list \<Rightarrow> rpc_call \<Rightarrow> error + pyval" where
  "node_reply nd tr cl =
     (case nd tr cl of Inl (code, msg) \<Rightarrow> Inl (RPCError code msg) | Inr v \<Rightarrow> Inr v)"

section \<open>Properties of the executor and of the Wallet operations\<close>

lemma wrapper_executor_RPCMethod:
  "wrapper_executor nd (RPCMethod c name) args tr =
     (node_reply nd tr (c, name, args), tr @ [(c, name, args)])"
  by (simp add: wrapper_executor_def rpc_exec_def wrapper_executor_body_def call_def
        classify_def node_reply_def split: sum.splits prod.splits)

lemma exec_on_proxy_Some:
  "self_proxy self = Some c \<Longrightarrow>
   exec_on_proxy nd name args self tr =
     (node_reply nd tr (c, name, args), self, tr @ [(c, name, args)])"
  by (simp add: exec_on_proxy_def proxy_getattr_def proxy_def wrapper_executor_RPCMethod)

lemma exec_on_proxy_None:
  "self_proxy self = None \<Longrightarrow>
   exec_on_proxy nd name args self tr =
     (Inl (AttributeError (quoted ''NoneType'' @ '' object has no attribute '' @ quoted name)),
      self, tr)"
  by (simp add: exec_on_proxy_def proxy_getattr_def proxy_def)

lemma exec_on_proxy_self: "fst (snd (exec_on_proxy nd name args self tr)) = self"
  by (cases "self_proxy self") (simp_all add: exec_on_proxy_Some exec_on_proxy_None)

text \<open>
  Claim C8. Every Wallet operation after construction (list wallets, load wallet, get
  balance, get address, get private key, get public key, get wallet info, send to
  address) leaves the Wallet's local state, its metadata record and its connection
  reference, as it found it, whatever the outcome of the operation: the instance an
  operation leaves behind is the instance it was called on.
\<close>

theorem wallet_operations_keep_local_state:
  "fst (snd (list_wallets nd self tr)) = self
   \<and> fst (snd (load_wallet nd name self tr)) = self
   \<and> fst (snd (get_balance nd self tr)) = self
   \<and> fst (snd (get_address nd self tr)) = self
   \<and> fst (snd (get_private_key nd self tr)) = self
   \<and> fst (snd (get_public_key nd self tr)) = self
   \<and> fst (snd (get_wallet_info nd self tr)) = self
   \<and> fst (snd (send_to_address nd address amount self tr)) = self"
  by (simp add: list_wallets_def load_wallet_def get_balance_def get_address_def
        get_private_key_def get_public_key_def get_wallet_info_def send_to_address_def
        exec_on_proxy_self)

section \<open>Resolving the active connection\<close>

lemma check_for_proxy_registered:
  "active_service w \<noteq> [] \<Longrightarrow>
   check_for_proxy w = (Some (snd (last (active_service w))), w)"
  by (subst check_for_proxy.simps) (simp add: get_active_service_def)

lemma registered_world:
  "active_service w = [] \<Longrightarrow>
   update_active_service [(fst (Service_init w), get_proxy (fst (Service_init w)))]
       (snd (Service_init w)) =
     w\<lparr>active_service := [(\<lparr>service_id = fresh w, service_proxy = fresh w\<rparr>, fresh w)],
       fresh := Suc (fresh w)\<rparr>"
  by (simp add: update_active_service_def Service_init_def get_proxy_def)

lemma check_for_proxy_unregistered:
  assumes "active_service w = []"
  shows "check_for_proxy w =
     (None, w\<lparr>active_service := [(\<lparr>service_id = fresh w, service_proxy = fresh w\<rparr>, fresh w)],
               fresh := Suc (fresh w)\<rparr>)"
proof -
  let ?w2 = "update_active_service [(fst (Service_init w), get_proxy (fst (Service_init w)))]
       (snd (Service_init w))"
  have step: "check_for_proxy w = (None, snd (check_for_proxy ?w2))"
    using assms by (subst check_for_proxy.simps) (simp add: get_active_service_def Let_def)
  have w2: "?w2 = w\<lparr>active_service := [(\<lparr>service_id = fresh w, service_proxy = fresh w\<rparr>, fresh w)],
       fresh := Suc (fresh w)\<rparr>"
    using assms by (rule registered_world)
  have "active_service ?w2 \<noteq> []"
    by (simp add: w2)
  then have "snd (check_for_proxy ?w2) = ?w2"
    by (simp add: check_for_proxy_registered)
  with step w2 show ?thesis
    by simp
qed

text \<open>
  Claim C1. Resolving the active connection is to return the connection of the Service
  it has just registered when the registry was empty. Evaluated on the empty registry,
  the function registers one Service (handle 0, connection 0) and returns \<open>None\<close>:
  the value of the retry is dropped. Only the next call returns connection 0.
\<close>

theorem check_for_proxy_empty_registry_returns_None:
  "check_for_proxy initial_world =
     (None, initial_world\<lparr>active_service := [(\<lparr>service_id = 0, service_proxy = 0\<rparr>, 0)],
                          fresh := 1\<rparr>)
   \<and> fst (check_for_proxy (snd (check_for_proxy initial_world))) = Some 0"
proof -
  have e: "active_service initial_world = []"
    by (simp add: initial_world_def)
  have f: "fresh initial_world = 0"
    by (simp add: initial_world_def)
  show ?thesis
    using check_for_proxy_unregistered [OF e]
    by (simp add: f check_for_proxy_registered)
qed

section \<open>Forwarding through the executor\<close>

text \<open>
  Claim C5. Whatever Wallet or Pool operation is invoked through the RPC call executor
  on a connection \<open>c\<close>, exactly one call reaches the node: the named operation, with
  the arguments in the order given and unmodified; and what the caller gets is the
  node's reply to that call, a decoded result unchanged (scalar, list or map alike).
\<close>

theorem executor_forwards_arguments_and_result:
  assumes "self_proxy self = Some c"
  shows
    "wrapper_executor nd (RPCMethod c name) args tr =
       (node_reply nd tr (c, name, args), tr @ [(c, name, args)])
     \<and> list_wallets nd self tr =
       (node_reply nd tr (c, ''listwalletdir'', []), self, tr @ [(c, ''listwalletdir'', [])])
     \<and> load_wallet nd wname self tr =
       (node_reply nd tr (c, ''loadwallet'', [wname]), self, tr @ [(c, ''loadwallet'', [wname])])
     \<and> get_balance nd self tr =
       (node_reply nd tr (c, ''getbalance'', []), self, tr @ [(c, ''getbalance'', [])])
     \<and> get_address nd self tr =
       (node_reply nd tr (c, ''getaddress'', []), self, tr @ [(c, ''getaddress'', [])])
     \<and> get_private_key nd self tr =
       (node_reply nd tr (c, ''dumpprivkey'', []), self, tr @ [(c, ''dumpprivkey'', [])])
     \<and> get_public_key nd self tr =
       (node_reply nd tr (c, ''getpubkey'', []), self, tr @ [(c, ''getpubkey'', [])])
     \<and> get_wallet_info nd self tr =
       (node_reply nd tr (c, ''getwalletinfo'', []), self, tr @ [(c, ''getwalletinfo'', [])])
     \<and> send_to_address nd address amount self tr =
       (node_reply nd tr (c, ''sendtoaddress'', [address, amount]), self,
        tr @ [(c, ''sendtoaddress'', [address, amount])])
     \<and> issue_token nd amount reissue \<lparr>self_vault_wallet = self\<rparr> tr =
       (node_reply nd tr (c, ''issueasset'', [amount, reissue]), \<lparr>self_vault_wallet = self\<rparr>,
        tr @ [(c, ''issueasset'', [amount, reissue])])
     \<and> (\<forall>cl v. nd tr cl = Inr v \<longrightarrow> node_reply nd tr cl = Inr v)"
  using assms
  by (simp add: wrapper_executor_RPCMethod exec_on_proxy_Some list_wallets_def
        load_wallet_def get_balance_def get_address_def get_private_key_def
        get_public_key_def get_wallet_info_def send_to_address_def issue_token_def
        proxy_getattr_def proxy_def node_reply_def)

theorem executor_forwards_arguments_and_result_witness:
  "self_proxy sample_wallet = Some 0
   \<and> send_to_address sample_node (PStr ''addr1'') (PFloat 1.5) sample_wallet [] =
       (Inr (PStr ''txid0''), sample_wallet,
        [(0, ''sendtoaddress'', [PStr ''addr1'', PFloat 1.5])])
   \<and> list_wallets sample_node sample_wallet [] =
       (Inr (PDict [(''wallets'', PList [PDict [(''name'', PStr ''w1'')]])]), sample_wallet,
        [(0, ''listwalletdir'', [])])"
proof -
  have p: "self_proxy sample_wallet = Some 0"
    by (simp add: sample_wallet_def)
  show ?thesis
    using executor_forwards_arguments_and_result
            [OF p, where nd = sample_node and tr = "[]" and address = "PStr ''addr1''"
               and amount = "PFloat 1.5"]
    by (simp add: p node_reply_def sample_node_def)
qed

section \<open>Pool\<close>

lemma issue_token_self: "fst (snd (issue_token nd amount reissue self tr)) = self"
  by (simp add: issue_token_def split: sum.splits prod.splits)

lemma pool_step_self: "fst (pool_step nd x (self, tr)) = self"
proof (cases x)
  case (Issue_token amount reissue)
  then show ?thesis
    using issue_token_self [of nd amount reissue self tr]
    by (cases "issue_token nd amount reissue self tr") simp
next
  case Vaul_wallet
  then show ?thesis by simp
qed

lemma pool_run_self: "fst (pool_run nd xs (self, tr)) = self"
proof (induction xs arbitrary: tr)
  case Nil
  show ?case by simp
next
  case (Cons x xs)
  obtain self1 tr1 where st: "pool_step nd x (self, tr) = (self1, tr1)"
    by (cases "pool_step nd x (self, tr)")
  with pool_step_self [of nd x self tr] have "self1 = self"
    by simp
  with st Cons.IH [of tr1] show ?case
    by simp
qed

lemma issue_token_Some:
  "self_proxy (self_vault_wallet self) = Some c \<Longrightarrow>
   issue_token nd amount reissue self tr =
     (node_reply nd tr (c, ''issueasset'', [amount, reissue]), self,
      tr @ [(c, ''issueasset'', [amount, reissue])])"
  by (simp add: issue_token_def proxy_getattr_def proxy_def wrapper_executor_RPCMethod)

text \<open>
  Claim C9. The owning Wallet of a Pool is the Wallet given to its constructor, and it
  stays so: the getter returns it, \<open>issue_token\<close> leaves the Pool as it was, so does
  any sequence of the two operations the class has, and \<open>issue_token\<close> sends its call
  through the connection of that owning Wallet.
\<close>

theorem pool_owner_is_fixed:
  "vaul_wallet (Pool_init w) = w
   \<and> fst (snd (issue_token nd amount reissue self tr)) = self
   \<and> vaul_wallet (fst (pool_run nd ops (Pool_init w, tr))) = w
   \<and> (self_proxy (vaul_wallet self) = Some c \<longrightarrow>
        snd (snd (issue_token nd amount reissue self tr)) =
          tr @ [(c, ''issueasset'', [amount, reissue])])"
  by (simp add: issue_token_self pool_run_self vaul_wallet_def Pool_init_def issue_token_Some)

theorem pool_owner_is_fixed_witness:
  "self_proxy (vaul_wallet sample_pool) = Some 0
   \<and> snd (snd (issue_token sample_node (PStr ''10'') (PStr ''5'') sample_pool [])) =
       [(0, ''issueasset'', [PStr ''10'', PStr ''5''])]
   \<and> vaul_wallet (fst (pool_run sample_node [Issue_token (PStr ''10'') (PStr ''5''), Vaul_wallet]
                          (Pool_init sample_wallet, []))) = sample_wallet"
  using pool_owner_is_fixed [of sample_wallet sample_node "PStr ''10''" "PStr ''5''" sample_pool
          "[]" "[Issue_token (PStr ''10'') (PStr ''5''), Vaul_wallet]" 0]
  by (simp add: sample_pool_def sample_wallet_def vaul_wallet_def)

text \<open>
  Claim C6, as stated: issuing with the amounts as strings and issuing with the
  numerically equal amounts as decimal numbers send the same arguments. They do not:
  \<open>issue_token("10", "5")\<close> sends two strings, \<open>issue_token(10.0, 5.0)\<close> two numbers.
\<close>

theorem issue_token_string_and_number_differ:
  "snd (snd (issue_token sample_node (PStr ''10'') (PStr ''5'') sample_pool [])) =
     [(0, ''issueasset'', [PStr ''10'', PStr ''5''])]
   \<and> snd (snd (issue_token sample_node (PFloat 10) (PFloat 5) sample_pool [])) =
     [(0, ''issueasset'', [PFloat 10, PFloat 5])]
   \<and> snd (snd (issue_token sample_node (PStr ''10'') (PStr ''5'') sample_pool [])) \<noteq>
     snd (snd (issue_token sample_node (PFloat 10) (PFloat 5) sample_pool []))"
proof -
  have p: "self_proxy (self_vault_wallet sample_pool) = Some 0"
    by (simp add: sample_pool_def sample_wallet_def)
  show ?thesis
    by (simp add: issue_token_Some [OF p])
qed

text \<open>
  Claim C6, amended. \<open>issue_token\<close> parses nothing: on a connected Pool it sends the
  initial and the reissuance amount to \<open>issueasset\<close> as they are given, in that
  order. Two issuances send the same arguments exactly when they are given the same
  values, in the same representation.
\<close>

theorem issue_token_sends_amounts_as_given:
  assumes "self_proxy (self_vault_wallet self) = Some c"
  shows
    "snd (snd (issue_token nd amount reissue self tr)) =
       tr @ [(c, ''issueasset'', [amount, reissue])]
     \<and> (snd (snd (issue_token nd amount reissue self tr)) =
          snd (snd (issue_token nd amount' reissue' self tr))
        \<longleftrightarrow> amount = amount' \<and> reissue = reissue')"
  by (simp add: issue_token_Some [OF assms])

theorem issue_token_sends_amounts_as_given_witness:
  "self_proxy (self_vault_wallet sample_pool) = Some 0
   \<and> snd (snd (issue_token sample_node (PFloat 10) (PFloat 5) sample_pool [])) =
       [(0, ''issueasset'', [PFloat 10, PFloat 5])]"
proof -
  have p: "self_proxy (self_vault_wallet sample_pool) = Some 0"
    by (simp add: sample_pool_def sample_wallet_def)
  show ?thesis
    using issue_token_sends_amounts_as_given [OF p, of sample_node "PFloat 10" "PFloat 5" "[]"]
    by (simp add: p)
qed

section \<open>Generated labels are UUID strings\<close>

lemma length_hex: "length (hex n v) = n"
  by (induction n arbitrary: v) simp_all

lemma hex_digit_is_hex_char:
  assumes "d < 16"
  shows "is_hex_char (hex_digit d)"
proof -
  have "list_all (\<lambda>d. is_hex_char (hex_digit d)) [0..<16]"
    by code_simp
  moreover have "d \<in> set [0..<16]"
    using assms by simp
  ultimately show ?thesis
    unfolding list_all_iff by blast
qed

lemma hex_is_hex: "list_all is_hex_char (hex n v)"
  by (induction n arbitrary: v) (simp_all add: hex_digit_is_hex_char)

lemma valid_uuid_groups:
  assumes "length a = 8" "length b = 4" "length c = 4" "length d = 4" "length e = 12"
    and "list_all is_hex_char a" "list_all is_hex_char b" "list_all is_hex_char c"
      "list_all is_hex_char d" "list_all is_hex_char e"
  shows "valid_uuid_string (a @ ''-'' @ b @ ''-'' @ c @ ''-'' @ d @ ''-'' @ e)"
  using assms by (simp add: valid_uuid_string_def nth_append)

lemma list_all_take: "list_all P xs \<Longrightarrow> list_all P (take n xs)"
  by (auto simp: list_all_iff dest: in_set_takeD)

lemma list_all_drop: "list_all P xs \<Longrightarrow> list_all P (drop n xs)"
  by (auto simp: list_all_iff dest: in_set_dropD)

lemma valid_uuid_string_str_uuid: "valid_uuid_string (str_uuid u)"
proof -
  let ?h = "hex 32 (unat u)"
  have len: "length ?h = 32"
    by (rule length_hex)
  have all: "list_all is_hex_char ?h"
    by (rule hex_is_hex)
  have "valid_uuid_string (take 8 ?h @ ''-'' @ take 4 (drop 8 ?h) @ ''-'' @ take 4 (drop 12 ?h)
          @ ''-'' @ take 4 (drop 16 ?h) @ ''-'' @ drop 20 ?h)"
    by (rule valid_uuid_groups)
       (simp_all add: len all list_all_take list_all_drop)
  then show ?thesis
    by (simp add: str_uuid_def Let_def)
qed

section \<open>Construction of a Wallet\<close>

lemma Wallet_init_reference:
  "Wallet_init nd rnd p (Some ''r'') l a tr =
     (Inr \<lparr>self_proxy = p, self_wallet = Some (PDict [])\<rparr>, tr)"
  by (simp add: Wallet_init_def)



lemma Wallet_init_no_connection:
  "mode = Some ''c'' \<or> mode = Some ''l'' \<Longrightarrow>
   \<exists>e. Wallet_init nd rnd None mode l a tr = (Inl e, tr)"
  by (auto simp: Wallet_init_def load_wallet_def create_wallet_def exec_on_proxy_None)

lemma create_wallet_connected:
  assumes "self_proxy self = Some c"
  shows "create_wallet nd rnd address label self tr =
     (let label' = (case label of
                      None \<Rightarrow> str_uuid (uuid4 rnd)
                    | Some l \<Rightarrow> if l = [] then str_uuid (uuid4 rnd) else l);
          c1 = (c, ''createwallet'', [PStr label', PBool False, PBool False])
      in case node_reply nd tr c1 of
           Inl e \<Rightarrow> (Inl e, self, tr @ [c1])
         | Inr creation \<Rightarrow>
             if address
             then (node_reply nd (tr @ [c1]) (c, ''getnewaddress'', []), self,
                   tr @ [c1, (c, ''getnewaddress'', [])])
             else (Inr creation, self, tr @ [c1]))"
  by (simp add: create_wallet_def exec_on_proxy_Some [OF assms] Let_def split: sum.splits)

lemma Wallet_init_create:
  "Wallet_init nd rnd (Some c) (Some ''c'') label address tr =
     (let label' = (case label of
                      None \<Rightarrow> str_uuid (uuid4 rnd)
                    | Some l \<Rightarrow> if l = [] then str_uuid (uuid4 rnd) else l);
          c1 = (c, ''createwallet'', [PStr label', PBool False, PBool False])
      in case node_reply nd tr c1 of
           Inl e \<Rightarrow> (Inl e, tr @ [c1])
         | Inr creation \<Rightarrow>
             if address
             then (case node_reply nd (tr @ [c1]) (c, ''getnewaddress'', []) of
                     Inl e \<Rightarrow> Inl e
                   | Inr v \<Rightarrow> Inr \<lparr>self_proxy = Some c, self_wallet = Some v\<rparr>,
                   tr @ [c1, (c, ''getnewaddress'', [])])
             else (Inr \<lparr>self_proxy = Some c, self_wallet = Some creation\<rparr>, tr @ [c1]))"
  by (simp add: Wallet_init_def create_wallet_connected Let_def split: sum.splits)

lemma node_reply_Inr: "node_reply nd tr cl = Inr v \<longleftrightarrow> nd tr cl = Inr v"
  by (auto simp: node_reply_def split: sum.splits)




text \<open>
  Claim C3. A Wallet constructed in create mode without a label, on a connection
  \<open>c\<close>, has made exactly these calls, in this order: \<open>createwallet\<close> with the
  generated label and the flags \<open>False\<close>, \<open>False\<close>, then, if an address was
  requested, \<open>getnewaddress\<close> without arguments. The generated label is a UUID
  string. The metadata is the answer to \<open>getnewaddress\<close> when an address was
  requested, and the answer to \<open>createwallet\<close> when not.
\<close>

theorem create_mode_calls_and_metadata:
  assumes "Wallet_init nd rnd p (Some ''c'') label with_address tr = (Inr w, tr')"
    and "label = None \<or> label = Some []"
  shows
    "\<exists>c m. p = Some c \<and> self_wallet w = Some m
       \<and> valid_uuid_string (str_uuid (uuid4 rnd))
       \<and> (with_address \<longrightarrow>
            tr' = tr @ [(c, ''createwallet'', [PStr (str_uuid (uuid4 rnd)), PBool False, PBool False]),
                        (c, ''getnewaddress'', [])]
            \<and> nd (tr @ [(c, ''createwallet'',
                          [PStr (str_uuid (uuid4 rnd)), PBool False, PBool False])])
                  (c, ''getnewaddress'', []) = Inr m)
       \<and> (\<not> with_address \<longrightarrow>
            tr' = tr @ [(c, ''createwallet'', [PStr (str_uuid (uuid4 rnd)), PBool False, PBool False])]
            \<and> nd tr (c, ''createwallet'', [PStr (str_uuid (uuid4 rnd)), PBool False, PBool False])
                = Inr m)"
proof (cases p)
  case None
  with assms(1) Wallet_init_no_connection [of "Some ''c''" nd rnd label with_address tr]
  show ?thesis
    by auto
next
  case (Some c)
  let ?c1 = "(c, ''createwallet'', [PStr (str_uuid (uuid4 rnd)), PBool False, PBool False])"
  from assms(2) have lbl: "(case label of None \<Rightarrow> str_uuid (uuid4 rnd)
        | Some l \<Rightarrow> if l = [] then str_uuid (uuid4 rnd) else l) = str_uuid (uuid4 rnd)"
    by auto
  from assms(1) Some have
    "\<exists>m. self_wallet w = Some m
       \<and> (with_address \<longrightarrow> tr' = tr @ [?c1, (c, ''getnewaddress'', [])]
            \<and> node_reply nd (tr @ [?c1]) (c, ''getnewaddress'', []) = Inr m)
       \<and> (\<not> with_address \<longrightarrow> tr' = tr @ [?c1] \<and> node_reply nd tr ?c1 = Inr m)"
    by (auto simp: Wallet_init_create lbl Let_def split: sum.splits if_splits)
  with Some show ?thesis
    by (auto simp: node_reply_Inr valid_uuid_string_str_uuid)
qed

theorem create_mode_calls_and_metadata_witness:
  "Wallet_init sample_node 0 (Some 0) (Some ''c'') None True [] =
     (Inr \<lparr>self_proxy = Some 0, self_wallet = Some (PStr ''addr0'')\<rparr>,
      [(0, ''createwallet'', [PStr (str_uuid (uuid4 0)), PBool False, PBool False]),
       (0, ''getnewaddress'', [])])
   \<and> valid_uuid_string (str_uuid (uuid4 0))"
proof -
  have c: "Wallet_init sample_node 0 (Some 0) (Some ''c'') None True [] =
     (Inr \<lparr>self_proxy = Some 0, self_wallet = Some (PStr ''addr0'')\<rparr>,
      [(0, ''createwallet'', [PStr (str_uuid (uuid4 0)), PBool False, PBool False]),
       (0, ''getnewaddress'', [])])"
    by (simp add: Wallet_init_create node_reply_def sample_node_def)
  show ?thesis
    using create_mode_calls_and_metadata [OF c] by (simp add: c)
qed

section \<open>The request operations\<close>

text \<open>
  Claim C10. The create-wallet request calls \<open>Wallet()\<close> without the connection the
  constructor requires. So every invocation fails with that \<open>TypeError\<close>, whatever the
  node and the state of the session are, and leaves the whole state as it was: no call
  reaches the node, and no Wallet is added to the session.
\<close>

theorem post_create_wallet_always_fails:
  "post_create_wallet nd rnd w =
     (Inl (TypeError (''__init__() missing 1 required positional argument: ''
                       @ quoted ''proxy_service'')), w)"
  by (simp add: post_create_wallet_def Wallet_new_def)

lemma list_wallets_connected:
  "self_proxy wlt = Some c \<Longrightarrow>
   list_wallets nd wlt tr =
     (node_reply nd tr (c, ''listwalletdir'', []), wlt, tr @ [(c, ''listwalletdir'', [])])"
  by (simp add: list_wallets_def exec_on_proxy_Some)

lemma list_wallets_no_connection:
  "self_proxy wlt = None \<Longrightarrow>
   list_wallets nd wlt tr =
     (Inl (AttributeError (quoted ''NoneType'' @ '' object has no attribute ''
                            @ quoted ''listwalletdir'')), wlt, tr)"
  by (simp add: list_wallets_def exec_on_proxy_None)

lemma get_wallet_session:
  assumes "session_wallets w \<noteq> []" and "self_proxy (last (session_wallets w)) = Some c"
  shows "get_wallet nd rnd w =
     (case node_reply nd (rpc_log w) (c, ''listwalletdir'', []) of
        Inl e \<Rightarrow> Inl e
      | Inr v \<Rightarrow> Inr PNone,
      w\<lparr>rpc_log := rpc_log w @ [(c, ''listwalletdir'', [])]\<rparr>)"
  using assms
  by (simp add: get_wallet_def get_session_wallets_def list_wallets_connected
        split: sum.splits)

lemma get_wallet_fresh:
  assumes "session_wallets w = []"
  shows "get_wallet nd rnd w =
     (case check_for_proxy w of
        (None, w1) \<Rightarrow>
          (Inl (AttributeError (quoted ''NoneType'' @ '' object has no attribute ''
                                 @ quoted ''listwalletdir'')), w1)
      | (Some c, w1) \<Rightarrow>
          (case node_reply nd (rpc_log w1) (c, ''listwalletdir'', []) of
             Inl e \<Rightarrow> Inl e
           | Inr v \<Rightarrow> Inr PNone,
           w1\<lparr>rpc_log := rpc_log w1 @ [(c, ''listwalletdir'', [])]\<rparr>))"
proof -
  obtain prx w1 where c: "check_for_proxy w = (prx, w1)"
    by (cases "check_for_proxy w")
  have new: "Wallet_new nd rnd (Some prx) None None (Some False) (rpc_log w1) =
      (Inr \<lparr>self_proxy = prx, self_wallet = Some (PDict [])\<rparr>, rpc_log w1)"
    by (simp add: Wallet_new_def Wallet_init_reference)
  show ?thesis
  proof (cases prx)
    case None
    with assms c new show ?thesis
      by (simp add: get_wallet_def get_session_wallets_def list_wallets_no_connection)
  next
    case (Some c')
    with assms c new show ?thesis
      by (simp add: get_wallet_def get_session_wallets_def list_wallets_connected
            split: sum.splits)
  qed
qed

text \<open>
  Claim C7. The list-wallets request is to return the wallet descriptors the node
  answers \<open>listwalletdir\<close> with. Evaluated with a session Wallet on connection 0, and
  evaluated with no session Wallet and a registered Service, the request makes the
  call, the node answers with its list, and the request returns \<open>None\<close>. With
  neither a session Wallet nor a registered Service it fails with \<open>AttributeError\<close>,
  the resolved connection being \<open>None\<close>.
\<close>

theorem get_wallet_returns_None:
  "get_wallet sample_node 0 (initial_world\<lparr>session_wallets := [sample_wallet]\<rparr>) =
     (Inr PNone,
      initial_world\<lparr>session_wallets := [sample_wallet],
                    rpc_log := [(0, ''listwalletdir'', [])]\<rparr>)
   \<and> sample_node [] (0, ''listwalletdir'', []) =
       Inr (PDict [(''wallets'', PList [PDict [(''name'', PStr ''w1'')]])])
   \<and> get_wallet sample_node 0 world_with_service =
       (Inr PNone, world_with_service\<lparr>rpc_log := [(0, ''listwalletdir'', [])]\<rparr>)
   \<and> fst (get_wallet sample_node 0 initial_world) =
       Inl (AttributeError (quoted ''NoneType'' @ '' object has no attribute ''
                             @ quoted ''listwalletdir''))"
proof -
  have n: "node_reply sample_node [] (0, ''listwalletdir'', []) =
      Inr (PDict [(''wallets'', PList [PDict [(''name'', PStr ''w1'')]])])"
    by (simp add: node_reply_def sample_node_def)
  have a: "get_wallet sample_node 0 (initial_world\<lparr>session_wallets := [sample_wallet]\<rparr>) =
     (Inr PNone,
      initial_world\<lparr>session_wallets := [sample_wallet],
                    rpc_log := [(0, ''listwalletdir'', [])]\<rparr>)"
    by (subst get_wallet_session [where c = 0])
       (simp_all add: sample_wallet_def initial_world_def n)
  have b: "sample_node [] (0, ''listwalletdir'', []) =
       Inr (PDict [(''wallets'', PList [PDict [(''name'', PStr ''w1'')]])])"
    by (simp add: sample_node_def)
  have r: "check_for_proxy world_with_service = (Some 0, world_with_service)"
    by (subst check_for_proxy_registered)
       (simp_all add: world_with_service_def initial_world_def)
  have c: "get_wallet sample_node 0 world_with_service =
       (Inr PNone, world_with_service\<lparr>rpc_log := [(0, ''listwalletdir'', [])]\<rparr>)"
    by (subst get_wallet_fresh)
       (simp_all add: r n, simp_all add: world_with_service_def initial_world_def n)
  have e: "check_for_proxy initial_world =
      (None, initial_world\<lparr>active_service := [(\<lparr>service_id = 0, service_proxy = 0\<rparr>, 0)],
                           fresh := Suc 0\<rparr>)"
    using check_for_proxy_unregistered [of initial_world]
    by (simp add: initial_world_def)
  have d: "fst (get_wallet sample_node 0 initial_world) =
       Inl (AttributeError (quoted ''NoneType'' @ '' object has no attribute ''
                             @ quoted ''listwalletdir''))"
    by (subst get_wallet_fresh) (simp_all add: e, simp add: initial_world_def)
  from a b c d show ?thesis
    by simp
qed

section \<open>Lookup by label\<close>

text \<open>
  Claim C4. Looking up a label among the session Wallets is to return the metadata of
  the most recent Wallet with that label, and to fail with the not-found condition
  when no Wallet has it. Evaluated on Wallets the constructor builds: the Wallet
  created on the sample node with the label \<open>a\<close> stores the node's answer to
  \<open>createwallet\<close>, and the Wallet in reference mode stores the empty record; neither
  has a \<open>label\<close> field. With either in the session the lookup ends with
  \<open>KeyError\<close>, for the label \<open>a\<close> the Wallet was created with and for a label
  \<open>c\<close> no Wallet has. Only the empty session gives the condition the claim names.
\<close>

theorem get_labeled_wallet_raises_KeyError:
  "Wallet_init sample_node 0 (Some 0) (Some ''c'') (Some ''a'') False [] =
     (Inr created_wallet, [(0, ''createwallet'', [PStr ''a'', PBool False, PBool False])])
   \<and> get_labeled_wallet ''a'' (initial_world\<lparr>session_wallets := [created_wallet]\<rparr>) =
     Inl (KeyError (quoted ''label''))
   \<and> get_labeled_wallet ''c'' (initial_world\<lparr>session_wallets := [created_wallet]\<rparr>) =
     Inl (KeyError (quoted ''label''))
   \<and> Wallet_init sample_node 0 (Some 0) (Some ''r'') None True [] = (Inr sample_wallet, [])
   \<and> get_labeled_wallet ''a'' (initial_world\<lparr>session_wallets := [sample_wallet]\<rparr>) =
     Inl (KeyError (quoted ''label''))
   \<and> KeyError (quoted ''label'') \<noteq> not_loaded
   \<and> get_labeled_wallet ''a'' initial_world = Inl no_wallet_loaded
   \<and> no_wallet_loaded \<noteq> not_loaded"
  by (simp add: Wallet_init_create Wallet_init_reference node_reply_def sample_node_def
        get_labeled_wallet_def get_session_wallets_def initial_world_def
        sample_wallet_def created_wallet_def wallet_def not_loaded_def no_wallet_loaded_def
        Let_def)

end
